theory Spec2Isabelle
  imports Complex_Main "HOL-Library.Sublist"
begin

section \<open>Text that goes into the generated AppleScript\<close>

text \<open>
  \<^verbatim>\<open>askChatGPT\<close> builds one AppleScript source text from a template with two holes, both
  inside double quotes: the conversation identifier and the prompt. The prompt goes
  through two \<^verbatim>\<open>String.replace\<close> calls with a global regular expression, the
  conversation identifier through none.
\<close>

definition quoteC :: char where
  "quoteC = CHR 0x22"

definition backslashC :: char where
  "backslashC = CHR 0x5C"

definition newlineC :: char where
  "newlineC = CHR 0x0A"

definition returnC :: char where
  "returnC = CHR 0x0D"

definition tabC :: char where
  "tabC = CHR 0x09"

text \<open>\<^verbatim>\<open>s.replace(/c/g, rep)\<close> for a one-character pattern: every occurrence is replaced.\<close>

definition replaceAll :: "char \<Rightarrow> string \<Rightarrow> string \<Rightarrow> string" where
  "replaceAll c rep s = concat (map (\<lambda>x. if x = c then rep else [x]) s)"

text \<open>\<^verbatim>\<open>prompt.replace(/"/g, '\\"').replace(/\n/g, '\\n')\<close>\<close>

definition escapePrompt :: "string \<Rightarrow> string" where
  "escapePrompt prompt =
     replaceAll newlineC [backslashC, CHR ''n'']
       (replaceAll quoteC [backslashC, quoteC] prompt)"

text \<open>
  How AppleScript reads a string literal (AppleScript Language Guide, class \<^verbatim>\<open>text\<close>,
  special string characters): the literal ends at the first double quote that no
  backslash precedes; a backslash makes one character of the pair it starts, and only the
  pairs for quote, backslash, \<^verbatim>\<open>n\<close>, \<^verbatim>\<open>r\<close> and \<^verbatim>\<open>t\<close> exist. \<open>scanLiteral\<close> takes
  the text after the opening quote and gives the value of the literal and the text after
  its closing quote, or \<open>None\<close> when the literal does not close or has an unknown pair.
\<close>

definition unescape :: "char \<Rightarrow> char option" where
  "unescape d =
     (if d = quoteC then Some quoteC
      else if d = backslashC then Some backslashC
      else if d = CHR ''n'' then Some newlineC
      else if d = CHR ''r'' then Some returnC
      else if d = CHR ''t'' then Some tabC
      else None)"

fun scanLiteral :: "string \<Rightarrow> (string \<times> string) option" where
  "scanLiteral [] = None"
| "scanLiteral (c # cs) =
     (if c = quoteC then Some ([], cs)
      else if c = backslashC then
        (case cs of
           [] \<Rightarrow> None
         | d # ds \<Rightarrow>
             (case unescape d of
                None \<Rightarrow> None
              | Some x \<Rightarrow>
                  (case scanLiteral ds of
                     None \<Rightarrow> None
                   | Some (v, rest) \<Rightarrow> Some (x # v, rest))))
      else
        (case scanLiteral cs of
           None \<Rightarrow> None
         | Some (v, rest) \<Rightarrow> Some (c # v, rest)))"

text \<open>
  The value a hole of the template gets: the literal opened before the hole has to close at
  the template's own closing quote, with nothing of the hole's text left over. Otherwise
  the generated text is not the script the template describes.
\<close>

definition literalValue :: "string \<Rightarrow> string option" where
  "literalValue body =
     (case scanLiteral (body @ [quoteC]) of
        Some (v, []) \<Rightarrow> Some v
      | _ \<Rightarrow> None)"

text \<open>
  \<^verbatim>\<open>runAppleScript\<close> gives the script's output through \<^verbatim>\<open>String.prototype.trim\<close>:
  white space and line terminators are taken off both ends. A character is a code unit
  below 256 here; of those, the ones \<^verbatim>\<open>trim\<close> removes are tab, line feed, vertical tab,
  form feed, carriage return, space and the no-break space.
\<close>

definition isWhite :: "char \<Rightarrow> bool" where
  "isWhite c \<longleftrightarrow>
     c = CHR 0x09 \<or> c = CHR 0x0A \<or> c = CHR 0x0B \<or> c = CHR 0x0C \<or> c = CHR 0x0D \<or>
     c = CHR 0x20 \<or> c = CHR 0xA0"

definition trim :: "string \<Rightarrow> string" where
  "trim s = rev (dropWhile isWhite (rev (dropWhile isWhite s)))"

section \<open>The response watcher\<close>

text \<open>
  The polling part of the script. Its variables are the script's; \<open>exited\<close> records that
  \<^verbatim>\<open>exit repeat\<close> was taken and \<open>polls\<close> counts the reads of the output text area, so
  that the n-th read sees the n-th sample of the application's output. A sample is
  \<open>None\<close> when reading the text area raises (the script's \<^verbatim>\<open>on error\<close> branch).
\<close>

definition maxWaitTime :: nat where
  "maxWaitTime = 120"

definition pollInterval :: nat where
  "pollInterval = 3"

record vars =
  waitTime :: nat
  previousResponseLength :: nat
  stableResponseCount :: nat
  responseText :: string
  exited :: bool
  polls :: nat

definition watchInit :: vars where
  "watchInit =
     \<lparr>waitTime = 0, previousResponseLength = 0, stableResponseCount = 0,
      responseText = [], exited = False, polls = 0\<rparr>"

text \<open>One pass through the body of \<^verbatim>\<open>repeat until waitTime > maxWaitTime\<close>.\<close>

definition pollBody :: "string option \<Rightarrow> vars \<Rightarrow> vars" where
  "pollBody sample v =
     (let currentResponseText = (case sample of Some t \<Rightarrow> t | None \<Rightarrow> []);
          currentLength = length currentResponseText;
          v1 = v\<lparr>polls := polls v + 1\<rparr>
      in if currentLength > 0 \<and> currentLength = previousResponseLength v then
           (let v2 = v1\<lparr>stableResponseCount := stableResponseCount v + 1\<rparr>
            in if stableResponseCount v2 \<ge> 3 then
                 v2\<lparr>responseText := currentResponseText, exited := True\<rparr>
               else
                 v2\<lparr>previousResponseLength := currentLength,
                    waitTime := waitTime v + pollInterval\<rparr>)
         else
           v1\<lparr>stableResponseCount := 0,
              previousResponseLength := currentLength,
              waitTime := waitTime v + pollInterval\<rparr>)"

function pollLoop :: "(nat \<Rightarrow> string option) \<Rightarrow> vars \<Rightarrow> vars" where
  "pollLoop out v =
     (if waitTime v > maxWaitTime then v
      else (let v' = pollBody (out (polls v)) v
            in if exited v' then v' else pollLoop out v'))"
  by pat_completeness auto
termination
  by (relation "measure (\<lambda>(out, v). maxWaitTime + 1 - waitTime v)")
     (auto simp: pollBody_def Let_def pollInterval_def split: if_splits)

definition timedOutMessage :: string where
  "timedOutMessage = ''Could not retrieve the complete response from ChatGPT (timed out).''"

definition tookTooLongMessage :: string where
  "tookTooLongMessage =
     ''ChatGPT took too long to respond. Please try again with a simpler question.''"

text \<open>The loop, then the script's two timeout branches, then \<^verbatim>\<open>return responseText\<close>.\<close>

definition awaitResponse :: "(nat \<Rightarrow> string option) \<Rightarrow> string" where
  "awaitResponse out =
     (let v = pollLoop out watchInit
      in if waitTime v > maxWaitTime \<and> previousResponseLength v > 0 then
           (case out (polls v) of Some t \<Rightarrow> t | None \<Rightarrow> timedOutMessage)
         else if waitTime v > maxWaitTime then tookTooLongMessage
         else responseText v)"

section \<open>The world the server acts on\<close>

text \<open>
  What the server changes: its own \<^verbatim>\<open>lastRequestTime\<close>, the system clipboard, and the
  target application, of which the model keeps the user-interface commands that were
  carried out, in order, together with the delays and sleeps between them. The reads of
  the response text area and the watcher's own delays are not put on the trace.
\<close>

datatype action =
    Activate
  | Delay real
  | Sleep int
  | ClickButton string
  | ClickTextField
  | Paste string
  | KeystrokeReturn

record sys =
  lastRequestTime :: int
  clipboard :: string
  trace :: "action list"

text \<open>
  What the server cannot decide: the clock, which automation commands raise (with the
  message they raise), what the application shows. Times are milliseconds as integers,
  as \<^verbatim>\<open>Date.now()\<close> gives them.
  \<^item> \<open>isRunning\<close>: the outcome of the script that asks whether the process exists, its
    output as \<^verbatim>\<open>runAppleScript\<close> gives it or the message it raises; \<open>activateError\<close>: the message the launching script
    raises, if it does.
  \<^item> \<open>now\<close>, \<open>nowAfter\<close>: what \<^verbatim>\<open>Date.now()\<close> gives inside \<^verbatim>\<open>waitForRateLimit\<close> and
    after it.
  \<^item> \<open>fails\<close>: the commands of the ask script that raise.
  \<^item> \<open>foreign\<close>: the outcome of running a generated text that is not the template with a
    literal in each hole, given the prompt and the identifier it was generated from. Such
    a text may fail to compile, or it may be a script with other commands than the
    template's; nothing is assumed about it.
  \<^item> \<open>textArea\<close>: what the n-th read of the response text area gives, \<open>None\<close> when it
    raises.
  \<^item> \<open>buttons\<close>: the names of the buttons of the sidebar, \<open>None\<close> when reading them
    raises; \<open>listError\<close>: the message the listing script raises as a whole, if it does.
\<close>

datatype step = StepActivate | StepClickButton | StepClickTextField | StepKeystrokeV | StepKeystrokeReturn

record env =
  isRunning :: "string + string"
  activateError :: "string option"
  now :: int
  nowAfter :: int
  fails :: "step \<Rightarrow> string option"
  foreign :: "string \<Rightarrow> string option \<Rightarrow> sys \<Rightarrow> (string + string) \<times> sys"
  textArea :: "nat \<Rightarrow> string option"
  buttons :: "string list option"
  listError :: "string option"

section \<open>Rate limiting\<close>

definition RATE_LIMIT_DELAY :: int where
  "RATE_LIMIT_DELAY = 120000"

text \<open>
  \<^verbatim>\<open>customDelay || RATE_LIMIT_DELAY\<close>: the left operand is taken when it is truthy; an
  absent argument and the number 0 are not.
\<close>

definition delayToUse :: "int option \<Rightarrow> int" where
  "delayToUse customDelay =
     (case customDelay of
        Some d \<Rightarrow> if d \<noteq> 0 then d else RATE_LIMIT_DELAY
      | None \<Rightarrow> RATE_LIMIT_DELAY)"

definition waitForRateLimit :: "env \<Rightarrow> int option \<Rightarrow> sys \<Rightarrow> sys" where
  "waitForRateLimit e customDelay s =
     (let timeSinceLastRequest = now e - lastRequestTime s
      in if timeSinceLastRequest < delayToUse customDelay then
           (let waitTime = delayToUse customDelay - timeSinceLastRequest
            in s\<lparr>trace := trace s @ [Sleep waitTime]\<rparr>)
         else s)"

section \<open>Reaching the application\<close>

definition cannotAccess :: string where
  "cannotAccess =
     ''Cannot access ChatGPT app. Please make sure ChatGPT is installed and properly configured. Error: ''"

definition couldNotActivate :: string where
  "couldNotActivate = ''Could not activate ChatGPT app. Please start it manually.''"

definition checkChatGPTAccess :: "env \<Rightarrow> sys \<Rightarrow> (string + bool) \<times> sys" where
  "checkChatGPTAccess e s =
     (case isRunning e of
        Inl m \<Rightarrow> (Inl (cannotAccess @ m), s)
      | Inr r \<Rightarrow>
          if r \<noteq> ''true'' then
            (case activateError e of
               Some m \<Rightarrow> (Inl (cannotAccess @ couldNotActivate), s)
             | None \<Rightarrow> (Inr True, s\<lparr>trace := trace s @ [Activate, Delay 2]\<rparr>))
          else (Inr True, s))"

section \<open>The ask script\<close>

text \<open>
  A script is a state transformer that may stop with the message of the error raised;
  what it did before is done. \<open>tryBlock\<close> is \<^verbatim>\<open>try ... end try\<close> with no handler.
\<close>

type_synonym script = "sys \<Rightarrow> string option \<times> sys"

definition andThen :: "script \<Rightarrow> script \<Rightarrow> script" where
  "andThen p q s = (case p s of (Some m, s') \<Rightarrow> (Some m, s') | (None, s') \<Rightarrow> q s')"

fun seqs :: "script list \<Rightarrow> script" where
  "seqs [] = (\<lambda>s. (None, s))"
| "seqs (p # ps) = andThen p (seqs ps)"

definition tryBlock :: "script \<Rightarrow> script" where
  "tryBlock p s = (None, snd (p s))"

definition ui :: "env \<Rightarrow> step \<Rightarrow> action \<Rightarrow> script" where
  "ui e st a s =
     (case fails e st of
        Some m \<Rightarrow> (Some m, s)
      | None \<Rightarrow> (None, s\<lparr>trace := trace s @ [a]\<rparr>))"

definition delay :: "real \<Rightarrow> script" where
  "delay t s = (None, s\<lparr>trace := trace s @ [Delay t]\<rparr>)"

definition setClipboard :: "string \<Rightarrow> script" where
  "setClipboard t s = (None, s\<lparr>clipboard := t\<rparr>)"

text \<open>\<^verbatim>\<open>keystroke "v" using command down\<close> pastes what the clipboard holds at that moment.\<close>

definition keystrokeV :: "env \<Rightarrow> script" where
  "keystrokeV e s = ui e StepKeystrokeV (Paste (clipboard s)) s"

text \<open>\<^verbatim>\<open>set pasteDelay to promptLength / 1000 + 1\<close>, in seconds.\<close>

definition pasteDelay :: "nat \<Rightarrow> real" where
  "pasteDelay promptLength = real promptLength / 1000 + 1"

text \<open>
  From \<^verbatim>\<open>set originalClipboard to the clipboard\<close> to
  \<^verbatim>\<open>set the clipboard to originalClipboard\<close>. None of these lines is inside a
  \<^verbatim>\<open>try\<close>.
\<close>

definition deliverPrompt :: "env \<Rightarrow> string \<Rightarrow> script" where
  "deliverPrompt e thePrompt s =
     (let originalClipboard = clipboard s
      in seqs [setClipboard thePrompt,
               ui e StepClickTextField ClickTextField,
               delay 0.5,
               keystrokeV e,
               delay (pasteDelay (length thePrompt)),
               ui e StepKeystrokeReturn KeystrokeReturn,
               setClipboard originalClipboard] s)"

definition selectConversation :: "env \<Rightarrow> string option \<Rightarrow> script" where
  "selectConversation e target =
     (case target of
        Some b \<Rightarrow> tryBlock (seqs [ui e StepClickButton (ClickButton b), delay 1])
      | None \<Rightarrow> seqs [])"

definition askScript :: "env \<Rightarrow> string option \<Rightarrow> string \<Rightarrow> sys \<Rightarrow> (string + string) \<times> sys" where
  "askScript e target thePrompt s =
     (case seqs [ui e StepActivate Activate,
                 delay 1,
                 selectConversation e target,
                 deliverPrompt e thePrompt,
                 delay 2] s of
        (Some m, s') \<Rightarrow> (Inl m, s')
      | (None, s') \<Rightarrow> (Inr (awaitResponse (textArea e)), s'))"



text \<open>
  The values the two holes get when each hole's text is one literal that closes at the
  template's own quote: then the generated text is the template with these two values.
  \<open>None\<close>: a hole's text closes its literal early, leaves it open or has an unknown
  backslash pair. The generated text is then some other text, with whatever follows the
  early quote read as script (a comment, further commands) or with the literal running on
  into the template; what running it does is the environment's \<open>foreign\<close>.
\<close>

definition holes :: "string \<Rightarrow> string option \<Rightarrow> (string option \<times> string) option" where
  "holes prompt conversationId =
     (case literalValue (escapePrompt prompt) of
        None \<Rightarrow> None
      | Some thePrompt \<Rightarrow>
          (case conversationId of
             None \<Rightarrow> Some (None, thePrompt)
           | Some c \<Rightarrow>
               if c = [] then Some (None, thePrompt)
               else (case literalValue c of
                       None \<Rightarrow> None
                     | Some b \<Rightarrow> Some (Some b, thePrompt))))"

definition runAskScript :: "env \<Rightarrow> string \<Rightarrow> string option \<Rightarrow> sys \<Rightarrow> (string + string) \<times> sys" where
  "runAskScript e prompt conversationId s =
     (case holes prompt conversationId of
        None \<Rightarrow> foreign e prompt conversationId s
      | Some (target, thePrompt) \<Rightarrow>
          (case askScript e target thePrompt s of
             (Inl m, s') \<Rightarrow> (Inl m, s')
           | (Inr stdout, s') \<Rightarrow> (Inr (trim stdout), s')))"

definition failedToGet :: string where
  "failedToGet = ''Failed to get response from ChatGPT: ''"

definition askChatGPT :: "env \<Rightarrow> string \<Rightarrow> string option \<Rightarrow> int option \<Rightarrow> sys \<Rightarrow> (string + string) \<times> sys" where
  "askChatGPT e prompt conversationId customDelay s =
     (case checkChatGPTAccess e s of
        (Inl m, s1) \<Rightarrow> (Inl m, s1)
      | (Inr ok, s1) \<Rightarrow>
          (let s2 = waitForRateLimit e customDelay s1;
               s3 = s2\<lparr>lastRequestTime := nowAfter e\<rparr>
           in case runAskScript e prompt conversationId s3 of
                (Inl m, s4) \<Rightarrow> (Inl (failedToGet @ m), s4)
              | (Inr result, s4) \<Rightarrow> (Inr result, s4)))"

section \<open>Listing conversations\<close>

text \<open>\<^verbatim>\<open>s.split(sep)\<close>: the pieces between the occurrences of the separator, found left to
  right; an empty separator splits into single characters.\<close>

function splitFrom :: "string \<Rightarrow> string \<Rightarrow> string \<Rightarrow> string list" where
  "splitFrom sep acc [] = [rev acc]"
| "splitFrom sep acc (c # cs) =
     (if sep \<noteq> [] \<and> take (length sep) (c # cs) = sep then
        rev acc # splitFrom sep [] (drop (length sep) (c # cs))
      else splitFrom sep (c # acc) cs)"
  by pat_completeness auto
termination
  by (relation "measure (\<lambda>(sep, acc, s). length s)") auto

definition splitJS :: "string \<Rightarrow> string \<Rightarrow> string list" where
  "splitJS sep s = (if sep = [] then map (\<lambda>c. [c]) s else splitFrom sep [] s)"

text \<open>\<^verbatim>\<open>xs.join(sep)\<close>; it is also how the script's result, a list of texts, is printed
  by the script runner, with \<^verbatim>\<open>", "\<close> between the items.\<close>

fun joinWith :: "string \<Rightarrow> string list \<Rightarrow> string" where
  "joinWith sep [] = []"
| "joinWith sep [x] = x"
| "joinWith sep (x # y # ys) = x @ sep @ joinWith sep (y # ys)"

text \<open>AppleScript compares text ignoring case unless told otherwise.\<close>

definition lowerC :: "char \<Rightarrow> char" where
  "lowerC c =
     (let n = (of_char c :: nat)
      in if 65 \<le> n \<and> n \<le> 90 then char_of (n + 32) else c)"

definition sameText :: "string \<Rightarrow> string \<Rightarrow> bool" where
  "sameText a b \<longleftrightarrow> map lowerC a = map lowerC b"

text \<open>The list the script returns: the names of the buttons other than the new-chat
  button, or the one-item list of the \<^verbatim>\<open>on error\<close> branch when reading them raises.\<close>

definition conversationsList :: "env \<Rightarrow> string list" where
  "conversationsList e =
     (case buttons e of
        None \<Rightarrow> [''Unable to retrieve conversations'']
      | Some names \<Rightarrow> filter (\<lambda>buttonName. \<not> sameText buttonName ''New chat'') names)"

definition getConversations :: "env \<Rightarrow> sys \<Rightarrow> (string + string list) \<times> sys" where
  "getConversations e s =
     (case checkChatGPTAccess e s of
        (Inl m, s1) \<Rightarrow> (Inl m, s1)
      | (Inr ok, s1) \<Rightarrow>
          (case listError e of
             Some m \<Rightarrow> (Inr [''Error retrieving conversations''], s1)
           | None \<Rightarrow>
               (let result = trim (joinWith '', '' (conversationsList e));
                    conversations = splitJS '', '' result
                in (Inr conversations, s1\<lparr>trace := trace s1 @ [Activate, Delay 1]\<rparr>))))"

section \<open>Arguments and dispatch\<close>

text \<open>
  The values a tool call's \<^verbatim>\<open>arguments\<close> can hold. An object is the list of its
  properties, each name once. Numbers are integers here (milliseconds); arrays do not occur.
\<close>

datatype jsval =
    JUndefined
  | JNull
  | JBool bool
  | JNum int
  | JStr string
  | JObj "(string \<times> jsval) list"

fun truthy :: "jsval \<Rightarrow> bool" where
  "truthy JUndefined = False"
| "truthy JNull = False"
| "truthy (JBool b) = b"
| "truthy (JNum n) = (n \<noteq> 0)"
| "truthy (JStr s) = (s \<noteq> [])"
| "truthy (JObj kvs) = True"

fun isString :: "jsval \<Rightarrow> bool" where
  "isString (JStr s) = True"
| "isString v = False"

fun isNumber :: "jsval \<Rightarrow> bool" where
  "isNumber (JNum n) = True"
| "isNumber v = False"

text \<open>Reading a property; one that is not there reads as \<^verbatim>\<open>undefined\<close>.\<close>

definition getProp :: "string \<Rightarrow> jsval \<Rightarrow> jsval" where
  "getProp k a =
     (case a of
        JObj kvs \<Rightarrow> (case map_of kvs k of Some v \<Rightarrow> v | None \<Rightarrow> JUndefined)
      | _ \<Rightarrow> JUndefined)"

definition isObject :: "jsval \<Rightarrow> bool" where
  "isObject a = (case a of JObj kvs \<Rightarrow> True | _ \<Rightarrow> False)"

definition isChatGPTArgs :: "jsval \<Rightarrow> bool" where
  "isChatGPTArgs args =
     (if \<not> isObject args then False
      else
        (let operation = getProp ''operation'' args;
             prompt = getProp ''prompt'' args;
             conversation_id = getProp ''conversation_id'' args;
             delay_ms = getProp ''delay_ms'' args
         in if \<not> truthy operation \<or>
               \<not> (operation = JStr ''ask'' \<or> operation = JStr ''get_conversations'') then False
            else if operation = JStr ''ask'' \<and> \<not> truthy prompt then False
            else if truthy prompt \<and> \<not> isString prompt then False
            else if truthy conversation_id \<and> \<not> isString conversation_id then False
            else if delay_ms \<noteq> JUndefined \<and> \<not> isNumber delay_ms then False
            else True))"

record response =
  content :: string
  isError :: bool

definition errorResponse :: "string \<Rightarrow> response" where
  "errorResponse m = \<lparr>content = ''Error: '' @ m, isError = True\<rparr>"

function showNat :: "nat \<Rightarrow> string" where
  "showNat n =
     (if n < 10 then [char_of (48 + n)]
      else showNat (n div 10) @ [char_of (48 + n mod 10)])"
  by pat_completeness auto
termination
  by (relation "measure id") auto

definition asString :: "jsval \<Rightarrow> string option" where
  "asString v = (case v of JStr s \<Rightarrow> Some s | _ \<Rightarrow> None)"

definition asNumber :: "jsval \<Rightarrow> int option" where
  "asNumber v = (case v of JNum n \<Rightarrow> Some n | _ \<Rightarrow> None)"

definition noConversations :: string where
  "noConversations = ''No conversations found in ChatGPT.''"

definition foundText :: "string list \<Rightarrow> string" where
  "foundText conversations =
     ''Found '' @ showNat (length conversations) @ '' conversation(s):'' @
     [newlineC, newlineC] @ joinWith [newlineC] conversations"

text \<open>
  The handler of a tool call, with everything it throws caught into an error response.
  After \<open>isChatGPTArgs\<close> the prompt of an ask is a string, a conversation identifier is a
  string or falsy, and a delay is a number or absent; \<open>asString\<close> and \<open>asNumber\<close> read
  them as \<open>askChatGPT\<close> receives them.
\<close>

definition handler :: "env \<Rightarrow> string \<Rightarrow> jsval \<Rightarrow> sys \<Rightarrow> response \<times> sys" where
  "handler e name args s =
     (if \<not> truthy args then (errorResponse ''No arguments provided'', s)
      else if name = ''chatgpt'' then
        (if \<not> isChatGPTArgs args then
           (errorResponse ''Invalid arguments for ChatGPT tool'', s)
         else if getProp ''operation'' args = JStr ''ask'' then
           (if \<not> truthy (getProp ''prompt'' args) then
              (errorResponse ''Prompt is required for ask operation'', s)
            else
              (case askChatGPT e (case asString (getProp ''prompt'' args) of Some p \<Rightarrow> p | None \<Rightarrow> [])
                                 (asString (getProp ''conversation_id'' args))
                                 (asNumber (getProp ''delay_ms'' args)) s of
                 (Inl m, s') \<Rightarrow> (errorResponse m, s')
               | (Inr r, s') \<Rightarrow>
                   (\<lparr>content = (if r \<noteq> [] then r else ''No response received from ChatGPT.''),
                     isError = False\<rparr>, s')))
         else if getProp ''operation'' args = JStr ''get_conversations'' then
           (case getConversations e s of
              (Inl m, s') \<Rightarrow> (errorResponse m, s')
            | (Inr conversations, s') \<Rightarrow>
                (\<lparr>content = (if length conversations > 0 then foundText conversations
                              else noConversations),
                  isError = False\<rparr>, s'))
         else
           (errorResponse
              (''Unknown operation: '' @
               (case asString (getProp ''operation'' args) of Some x \<Rightarrow> x | None \<Rightarrow> [])), s))
      else (\<lparr>content = ''Unknown tool: '' @ name, isError = True\<rparr>, s))"

section \<open>Notions used to state the watcher's behaviour\<close>

definition sampleText :: "string option \<Rightarrow> string" where
  "sampleText sample = (case sample of Some t \<Rightarrow> t | None \<Rightarrow> [])"

definition lengthAt :: "(nat \<Rightarrow> string option) \<Rightarrow> nat \<Rightarrow> nat" where
  "lengthAt out k = length (sampleText (out k))"

text \<open>Poll \<open>k\<close> (counted from 0) is the third in a row whose non-zero length equals the
  length of the poll before it: four equal non-zero samples end at \<open>k\<close>.\<close>

definition stableAt :: "(nat \<Rightarrow> string option) \<Rightarrow> nat \<Rightarrow> bool" where
  "stableAt out k \<longleftrightarrow>
     3 \<le> k \<and> 0 < lengthAt out k \<and> lengthAt out k = lengthAt out (k - 1) \<and>
     lengthAt out (k - 1) = lengthAt out (k - 2) \<and> lengthAt out (k - 2) = lengthAt out (k - 3)"

text \<open>A scripted output surface: the given texts in order, the last one from then on.\<close>

definition scripted :: "string list \<Rightarrow> nat \<Rightarrow> string option" where
  "scripted ts k = Some (if k < length ts then ts ! k else last ts)"

definition textOfLength :: "nat \<Rightarrow> string" where
  "textOfLength n = replicate n (CHR ''x'')"

text \<open>The script's variables on entry to pass \<open>k\<close> of the loop when no earlier pass left it.\<close>

fun prevLen :: "(nat \<Rightarrow> string option) \<Rightarrow> nat \<Rightarrow> nat" where
  "prevLen out 0 = 0"
| "prevLen out (Suc k) = lengthAt out k"

definition grows :: "(nat \<Rightarrow> string option) \<Rightarrow> nat \<Rightarrow> bool" where
  "grows out k \<longleftrightarrow> \<not> (0 < lengthAt out k \<and> lengthAt out k = prevLen out k)"

fun runCount :: "(nat \<Rightarrow> string option) \<Rightarrow> nat \<Rightarrow> nat" where
  "runCount out 0 = 0"
| "runCount out (Suc k) = (if grows out k then 0 else runCount out k + 1)"

definition fires :: "(nat \<Rightarrow> string option) \<Rightarrow> nat \<Rightarrow> bool" where
  "fires out k \<longleftrightarrow> \<not> grows out k \<and> 2 \<le> runCount out k"

definition entry :: "(nat \<Rightarrow> string option) \<Rightarrow> nat \<Rightarrow> vars" where
  "entry out k =
     \<lparr>waitTime = pollInterval * k, previousResponseLength = prevLen out k,
      stableResponseCount = runCount out k, responseText = [], exited = False, polls = k\<rparr>"

section \<open>A concrete world for the examples\<close>

text \<open>The application is running, nothing raises, the answer is complete at once, and the
  user had something on the clipboard.\<close>

definition calmEnv :: env where
  "calmEnv =
     \<lparr>isRunning = Inr ''true'', activateError = None, now = 5000, nowAfter = 5000,
      fails = (\<lambda>st. None), foreign = (\<lambda>p c s. (Inl ''syntax error'', s)),
      textArea = scripted [''Hello!''],
      buttons = Some [''New chat'', ''Trip plans'', ''Recipes''], listError = None\<rparr>"

definition userSys :: sys where
  "userSys = \<lparr>lastRequestTime = 0, clipboard = ''copied by the user'', trace = []\<rparr>"

text \<open>The same world, except that clicking the input field raises.\<close>

definition focusFails :: env where
  "focusFails =
     calmEnv\<lparr>fails := (\<lambda>st. if st = StepClickTextField then Some ''no text field'' else None)\<rparr>"

section \<open>The poll loop, pass by pass\<close>

declare pollLoop.simps [simp del]

lemma entry_0: "entry out 0 = watchInit"
  by (simp add: entry_def watchInit_def)

lemma pollBody_quiet:
  "\<not> fires out k \<Longrightarrow> pollBody (out k) (entry out k) = entry out (Suc k)"
  by (simp add: pollBody_def entry_def fires_def grows_def lengthAt_def sampleText_def Let_def; blast)

lemma pollBody_fires:
  "fires out k \<Longrightarrow>
   pollBody (out k) (entry out k) =
     (entry out k)\<lparr>polls := Suc k, stableResponseCount := runCount out k + 1,
                   responseText := sampleText (out k), exited := True\<rparr>"
  by (simp add: pollBody_def entry_def fires_def grows_def lengthAt_def sampleText_def Let_def)

lemma pollLoop_unroll:
  "k \<le> 41 \<Longrightarrow> (\<forall>j<k. \<not> fires out j) \<Longrightarrow> pollLoop out watchInit = pollLoop out (entry out k)"
proof (induction k)
  case 0
  then show ?case by (simp add: entry_0)
next
  case (Suc k)
  then have ih: "pollLoop out watchInit = pollLoop out (entry out k)" by simp
  from Suc.prems have q: "\<not> fires out k" by simp
  from Suc.prems have w: "\<not> waitTime (entry out k) > maxWaitTime"
    by (simp add: entry_def maxWaitTime_def pollInterval_def)
  have e: "\<not> exited (entry out (Suc k))" by (simp add: entry_def)
  have p: "polls (entry out k) = k" by (simp add: entry_def)
  have "pollLoop out (entry out k) = pollLoop out (entry out (Suc k))"
    by (subst pollLoop.simps) (simp add: w p pollBody_quiet [OF q] e Let_def)
  with ih show ?case by simp
qed

lemma runCount_ge2:
  "2 \<le> runCount out k \<longleftrightarrow> 2 \<le> k \<and> \<not> grows out (k - 1) \<and> \<not> grows out (k - 2)"
proof (cases k)
  case 0
  then show ?thesis by simp
next
  case (Suc m)
  then show ?thesis by (cases m) simp_all
qed

lemma grows_0: "grows out 0"
  by (auto simp: grows_def)

lemma grows_Suc:
  "grows out (Suc k) \<longleftrightarrow> \<not> (0 < lengthAt out (Suc k) \<and> lengthAt out (Suc k) = lengthAt out k)"
  by (simp add: grows_def)

lemma fires_iff: "fires out k \<longleftrightarrow> stableAt out k"
proof -
  consider "k = 0" | "k = 1" | "k = 2" | m where "k = Suc (Suc (Suc m))"
    by (metis One_nat_def Suc_1 not0_implies_Suc)
  then show ?thesis
  proof cases
    case 1
    then show ?thesis by (simp add: fires_def stableAt_def)
  next
    case 2
    then show ?thesis by (simp add: fires_def stableAt_def)
  next
    case 3
    then show ?thesis by (simp add: fires_def stableAt_def runCount_ge2 grows_0)
  next
    case 4
    then show ?thesis
      by (auto simp: fires_def stableAt_def runCount_ge2 grows_Suc)
  qed
qed

lemma pollLoop_done:
  assumes "k \<le> 40" "stableAt out k" "\<forall>j<k. \<not> stableAt out j"
  shows "pollLoop out watchInit =
     (entry out k)\<lparr>polls := Suc k, stableResponseCount := runCount out k + 1,
                   responseText := sampleText (out k), exited := True\<rparr>"
proof -
  have u: "pollLoop out watchInit = pollLoop out (entry out k)"
    using assms by (intro pollLoop_unroll) (simp_all add: fires_iff)
  have f: "fires out k" using assms by (simp add: fires_iff)
  have w: "\<not> waitTime (entry out k) > maxWaitTime"
    using assms by (simp add: entry_def maxWaitTime_def pollInterval_def)
  have p: "polls (entry out k) = k" by (simp add: entry_def)
  show ?thesis
    unfolding u
    by (subst pollLoop.simps) (simp add: w p pollBody_fires [OF f] Let_def)
qed

lemma pollLoop_timeout:
  assumes "\<forall>k\<le>40. \<not> stableAt out k"
  shows "pollLoop out watchInit = entry out 41"
proof -
  have u: "pollLoop out watchInit = pollLoop out (entry out 41)"
    using assms by (intro pollLoop_unroll) (simp_all add: fires_iff)
  show ?thesis
    unfolding u
    by (subst pollLoop.simps) (simp add: entry_def maxWaitTime_def pollInterval_def)
qed

lemma awaitResponse_done:
  assumes "k \<le> 40" "stableAt out k" "\<forall>j<k. \<not> stableAt out j"
  shows "awaitResponse out = sampleText (out k)"
  unfolding awaitResponse_def pollLoop_done [OF assms]
  using assms(1) by (simp add: entry_def maxWaitTime_def pollInterval_def)

lemma awaitResponse_timeout:
  assumes "\<forall>k\<le>40. \<not> stableAt out k"
  shows "awaitResponse out =
    (if 0 < lengthAt out 40 then (case out 41 of Some t \<Rightarrow> t | None \<Rightarrow> timedOutMessage)
     else tookTooLongMessage)"
proof -
  have "prevLen out 41 = lengthAt out 40"
    using prevLen.simps(2) [of out 40] by simp
  then show ?thesis
    unfolding awaitResponse_def pollLoop_timeout [OF assms]
    by (simp add: entry_def maxWaitTime_def pollInterval_def)
qed

lemma exited_iff: "exited (pollLoop out watchInit) \<longleftrightarrow> (\<exists>k\<le>40. stableAt out k)"
proof
  assume a: "exited (pollLoop out watchInit)"
  show "\<exists>k\<le>40. stableAt out k"
  proof (rule ccontr)
    assume "\<not> (\<exists>k\<le>40. stableAt out k)"
    then have "\<forall>k\<le>40. \<not> stableAt out k" by simp
    from pollLoop_timeout [OF this] a show False by (simp add: entry_def)
  qed
next
  assume "\<exists>k\<le>40. stableAt out k"
  then obtain k where k: "k \<le> 40 \<and> stableAt out k" by blast
  define m where "m = (LEAST i. i \<le> 40 \<and> stableAt out i)"
  have m: "m \<le> 40 \<and> stableAt out m"
    unfolding m_def by (rule LeastI [of _ k]) (rule k)
  have least: "\<forall>j<m. \<not> stableAt out j"
  proof (intro allI impI notI)
    fix j assume j: "j < m" and s: "stableAt out j"
    with m have "j \<le> 40 \<and> stableAt out j" by simp
    then have "m \<le> j" unfolding m_def by (rule Least_le)
    with j show False by simp
  qed
  from pollLoop_done [of m out] m least show "exited (pollLoop out watchInit)" by simp
qed

lemma pollLoop_polls:
  assumes "k \<le> 40" "stableAt out k" "\<forall>j<k. \<not> stableAt out j"
  shows "polls (pollLoop out watchInit) = Suc k"
  by (simp add: pollLoop_done [OF assms])

lemma scripted_len:
  "lengthAt (scripted ts) k = length (if k < length ts then ts ! k else last ts)"
  by (simp add: lengthAt_def scripted_def sampleText_def)

section \<open>Escaping and reading back\<close>

lemma escapePrompt_Nil: "escapePrompt [] = []"
  by (simp add: escapePrompt_def replaceAll_def)

lemma escapePrompt_Cons:
  "escapePrompt (c # cs) =
     (if c = quoteC then [backslashC, quoteC]
      else if c = newlineC then [backslashC, CHR ''n'']
      else [c]) @ escapePrompt cs"
  by (simp add: escapePrompt_def replaceAll_def quoteC_def backslashC_def newlineC_def)

lemma scanLiteral_escape:
  "backslashC \<notin> set p \<Longrightarrow> scanLiteral (escapePrompt p @ quoteC # rest) = Some (p, rest)"
proof (induction p)
  case Nil
  then show ?case by (simp add: escapePrompt_Nil)
next
  case (Cons c cs)
  then have ih: "scanLiteral (escapePrompt cs @ quoteC # rest) = Some (cs, rest)"
    and c: "c \<noteq> backslashC" by auto
  show ?case
    using c ih
    by (simp add: escapePrompt_Cons unescape_def quoteC_def backslashC_def newlineC_def)
qed

lemma literalValue_escape:
  "backslashC \<notin> set p \<Longrightarrow> literalValue (escapePrompt p) = Some p"
  using scanLiteral_escape [of p "[]"] by (simp add: literalValue_def)








lemma trim_Nil: "trim [] = []"
  by (simp add: trim_def)

lemma trim_unable:
  "trim ''Unable to retrieve conversations'' = ''Unable to retrieve conversations''"
  by (simp add: trim_def isWhite_def)

section \<open>What the ask script does to the application\<close>

lemma deliverPrompt_ok:
  assumes "fails e StepClickTextField = None" "fails e StepKeystrokeV = None"
    "fails e StepKeystrokeReturn = None"
  shows "deliverPrompt e thePrompt s =
    (None, s\<lparr>trace := trace s @ [ClickTextField, Delay (1 / 2), Paste thePrompt,
                                  Delay (real (length thePrompt) / 1000 + 1), KeystrokeReturn]\<rparr>)"
  using assms
  by (simp add: deliverPrompt_def andThen_def ui_def delay_def setClipboard_def keystrokeV_def
      pasteDelay_def Let_def)

section \<open>Validation and listing\<close>

lemma ask_without_prompt_invalid:
  "getProp ''operation'' args = JStr ''ask'' \<Longrightarrow> \<not> truthy (getProp ''prompt'' args) \<Longrightarrow>
   \<not> isChatGPTArgs args"
  by (simp add: isChatGPTArgs_def Let_def)

lemma getProp_object: "getProp k args \<noteq> JUndefined \<Longrightarrow> isObject args \<and> truthy args"
  by (cases args) (simp_all add: getProp_def isObject_def)

lemma splitFrom_nonempty: "splitFrom sep acc s \<noteq> []"
  by (induction sep acc s rule: splitFrom.induct) simp_all

lemma splitJS_nonempty: "sep \<noteq> [] \<Longrightarrow> splitJS sep s \<noteq> []"
  by (simp add: splitJS_def splitFrom_nonempty)

lemma split_unable:
  "splitJS '', '' ''Unable to retrieve conversations'' = [''Unable to retrieve conversations'']"
  by (simp add: splitJS_def)

lemma getConversations_failed:
  assumes "checkChatGPTAccess e s = (Inr ok, s1)" "listError e \<noteq> None \<or> buttons e = None"
  shows "fst (getConversations e s) =
     Inr [if listError e \<noteq> None then ''Error retrieving conversations''
          else ''Unable to retrieve conversations'']"
proof (cases "listError e")
  case None
  with assms have "buttons e = None" by simp
  with None assms(1) show ?thesis
    by (simp add: getConversations_def conversationsList_def trim_unable split_unable Let_def)
next
  case (Some m)
  with assms(1) show ?thesis by (simp add: getConversations_def)
qed

lemma getConversations_nonempty:
  "getConversations e s = (Inr conversations, s') \<Longrightarrow> conversations \<noteq> []"
  by (auto simp: getConversations_def Let_def splitJS_nonempty
      split: prod.splits sum.splits option.splits)

lemma handler_listing_content:
  assumes "getProp ''operation'' args = JStr ''get_conversations''"
  shows "content (fst (handler e ''chatgpt'' args s)) \<noteq> noConversations"
proof -
  from assms have t: "truthy args" by (cases args) (simp_all add: getProp_def)
  show ?thesis
  proof (cases "isChatGPTArgs args")
    case False
    with t show ?thesis by (simp add: handler_def errorResponse_def noConversations_def)
  next
    case True
    obtain r s' where g: "getConversations e s = (r, s')" by (cases "getConversations e s")
    show ?thesis
    proof (cases r)
      case (Inl m)
      with True t assms g show ?thesis
        by (simp add: handler_def errorResponse_def noConversations_def)
    next
      case (Inr conversations)
      with g have "conversations \<noteq> []" by (simp add: getConversations_nonempty)
      with Inr True t assms g show ?thesis
        by (simp add: handler_def foundText_def noConversations_def)
    qed
  qed
qed

section \<open>C1: when the watcher is done\<close>

lemma stable_0_0_5_9_9_9:
  shows "stableAt (scripted (map textOfLength [0, 0, 5, 9, 9, 9])) 6"
    and "\<forall>j<6. \<not> stableAt (scripted (map textOfLength [0, 0, 5, 9, 9, 9])) j"
  by (simp_all add: stableAt_def scripted_len textOfLength_def All_less_Suc eval_nat_numeral)

lemma stable_0_3_3_3:
  shows "stableAt (scripted (map textOfLength [0, 3, 3, 3])) 4"
    and "\<forall>j<4. \<not> stableAt (scripted (map textOfLength [0, 3, 3, 3])) j"
  by (simp_all add: stableAt_def scripted_len textOfLength_def All_less_Suc eval_nat_numeral)

lemma stable_0_0_5_9_9_9_9:
  shows "stableAt (scripted (map textOfLength [0, 0, 5, 9, 9, 9, 9])) 6"
    and "\<forall>j<6. \<not> stableAt (scripted (map textOfLength [0, 0, 5, 9, 9, 9, 9])) j"
  by (simp_all add: stableAt_def scripted_len textOfLength_def All_less_Suc eval_nat_numeral)

lemma stable_0_3_3_3_3:
  shows "stableAt (scripted (map textOfLength [0, 3, 3, 3, 3])) 4"
    and "\<forall>j<4. \<not> stableAt (scripted (map textOfLength [0, 3, 3, 3, 3])) j"
  by (simp_all add: stableAt_def scripted_len textOfLength_def All_less_Suc eval_nat_numeral)

text \<open>
  C1, as stated, fails on the two sequences it names. With the lengths 0, 0, 5, 9, 9, 9 the
  third 9 is the sixth poll; there the counter is 2 and the loop goes on. When the text
  stays at 9 characters the loop is left at the seventh poll, the fourth 9. Likewise
  0, 3, 3, 3 is left at the fifth poll, not the fourth.
\<close>

theorem C1_counterexample:
  "polls (pollLoop (scripted (map textOfLength [0, 0, 5, 9, 9, 9])) watchInit) = 7 \<and>
   polls (pollLoop (scripted (map textOfLength [0, 3, 3, 3])) watchInit) = 5"
proof -
  have "polls (pollLoop (scripted (map textOfLength [0, 0, 5, 9, 9, 9])) watchInit) = Suc 6"
    by (rule pollLoop_polls [OF _ stable_0_0_5_9_9_9]) simp
  moreover
  have "polls (pollLoop (scripted (map textOfLength [0, 3, 3, 3])) watchInit) = Suc 4"
    by (rule pollLoop_polls [OF _ stable_0_3_3_3]) simp
  ultimately show ?thesis by simp
qed

text \<open>
  C1, amended: the watcher leaves the loop through \<^verbatim>\<open>exit repeat\<close> exactly when, at one
  of its 41 polls, a non-zero length has equalled the length of the previous sample for 3
  polls in a row (four equal non-zero samples; the 3 is fixed in the script), and it does so
  at the first such poll, returning the text read at that poll. The counter going back to 0
  on every other poll is what makes the three polls consecutive.
\<close>

theorem C1_watcher_done:
  "(exited (pollLoop out watchInit) \<longleftrightarrow> (\<exists>k\<le>40. stableAt out k)) \<and>
   (k \<le> 40 \<and> stableAt out k \<and> (\<forall>j<k. \<not> stableAt out j) \<longrightarrow>
      polls (pollLoop out watchInit) = Suc k \<and> awaitResponse out = sampleText (out k))"
  using exited_iff [of out] pollLoop_polls [of k out] awaitResponse_done [of k out]
  by blast

theorem C1_watcher_done_witness:
  "polls (pollLoop (scripted (map textOfLength [0, 0, 5, 9, 9, 9, 9])) watchInit) = 7 \<and>
   awaitResponse (scripted (map textOfLength [0, 0, 5, 9, 9, 9, 9])) = textOfLength 9 \<and>
   polls (pollLoop (scripted (map textOfLength [0, 3, 3, 3, 3])) watchInit) = 5 \<and>
   awaitResponse (scripted (map textOfLength [0, 3, 3, 3, 3])) = textOfLength 3 \<and>
   length (textOfLength 3) = 3"
  using C1_watcher_done [of "scripted (map textOfLength [0, 0, 5, 9, 9, 9, 9])" 6]
        C1_watcher_done [of "scripted (map textOfLength [0, 3, 3, 3, 3])" 4]
        stable_0_0_5_9_9_9_9 stable_0_3_3_3_3
  by (simp add: scripted_def sampleText_def textOfLength_def)

section \<open>C2: the clipboard when input delivery fails\<close>

text \<open>
  C2 says the clipboard is put back to what it held before the prompt was written to it,
  also when focusing the input field fails. The script has no handler around these lines:
  when the click on the text field raises, the script stops there and the restoring line
  is never reached. Evaluated where the click raises, the clipboard is left holding the
  prompt \<open>hello\<close> instead of the user's \<open>copied by the user\<close>; where nothing raises it is
  put back.
\<close>

theorem C2_clipboard_left_overwritten:
  "askChatGPT focusFails ''hello'' None None userSys =
     (Inl (failedToGet @ ''no text field''),
      \<lparr>lastRequestTime = 5000, clipboard = ''hello'', trace = [Sleep 115000, Activate, Delay 1]\<rparr>) \<and>
   clipboard userSys = ''copied by the user'' \<and>
   clipboard (snd (askChatGPT calmEnv ''hello'' None None userSys)) = ''copied by the user''"
  by (simp add: askChatGPT_def checkChatGPTAccess_def waitForRateLimit_def delayToUse_def
      RATE_LIMIT_DELAY_def runAskScript_def holes_def literalValue_def
      escapePrompt_def replaceAll_def quoteC_def backslashC_def newlineC_def
      askScript_def andThen_def ui_def delay_def setClipboard_def keystrokeV_def
      deliverPrompt_def selectConversation_def Let_def focusFails_def calmEnv_def userSys_def)

section \<open>C3: the interval of the rate limiter\<close>

text \<open>
  C3 says a caller-supplied interval is used whenever one is given, 0 included. The code
  picks the interval with \<^verbatim>\<open>||\<close>, for which 0 counts as not given: with an override of
  0 and no time elapsed since the last dispatch, the caller is made to sleep the full
  default of 120000 ms where C3 lets it proceed at once.
\<close>

theorem C3_zero_override_waits_default:
  "delayToUse (Some 200) = 200 \<and> delayToUse None = 120000 \<and>
   delayToUse (Some 0) = 120000 \<and>
   now calmEnv - lastRequestTime (userSys\<lparr>lastRequestTime := 5000\<rparr>) = 0 \<and>
   waitForRateLimit calmEnv (Some 0) (userSys\<lparr>lastRequestTime := 5000\<rparr>) =
     userSys\<lparr>lastRequestTime := 5000, trace := [Sleep 120000]\<rparr>"
  by (simp add: waitForRateLimit_def delayToUse_def RATE_LIMIT_DELAY_def calmEnv_def userSys_def)

section \<open>C4: the delay between paste and send\<close>

text \<open>
  C4, as stated, fails: for a prompt of 500 characters the script waits 1.5 seconds between
  the paste and the return key, and no delay of max(1, 500/1000) = 1 second is on the trace.
\<close>

theorem C4_counterexample:
  "Delay (3 / 2) \<in> set (trace (snd (deliverPrompt calmEnv (textOfLength 500) userSys))) \<and>
   Delay (max 1 (real (length (textOfLength 500)) / 1000))
     \<notin> set (trace (snd (deliverPrompt calmEnv (textOfLength 500) userSys)))"
  by (simp add: deliverPrompt_ok calmEnv_def userSys_def textOfLength_def)

text \<open>
  C4, amended: for every prompt of length N that has no backslash in it (so that the text
  the script holds in \<^verbatim>\<open>thePrompt\<close> is the prompt), when the input steps succeed the
  delay waited between pasting the prompt and the return key is N/1000 + 1 seconds: the
  sum, which is never below 1 second, not the maximum.
\<close>

theorem C4_paste_delay:
  "fails e StepClickTextField = None \<Longrightarrow> fails e StepKeystrokeV = None \<Longrightarrow>
   fails e StepKeystrokeReturn = None \<Longrightarrow> backslashC \<notin> set prompt \<Longrightarrow>
   holes prompt None = Some (None, prompt) \<and>
   deliverPrompt e prompt s =
     (None, s\<lparr>trace := trace s @ [ClickTextField, Delay (1 / 2), Paste prompt,
                                   Delay (real (length prompt) / 1000 + 1), KeystrokeReturn]\<rparr>)"
  by (simp add: deliverPrompt_ok holes_def literalValue_escape)

theorem C4_paste_delay_witness:
  "backslashC \<notin> set ''hello'' \<and>
   holes ''hello'' None = Some (None, ''hello'') \<and>
   deliverPrompt calmEnv ''hello'' userSys =
     (None, userSys\<lparr>trace := [ClickTextField, Delay (1 / 2), Paste ''hello'',
                               Delay (201 / 200), KeystrokeReturn]\<rparr>)"
  using C4_paste_delay [of calmEnv "''hello''" userSys]
  by (simp add: calmEnv_def userSys_def backslashC_def)

section \<open>C5: what the watcher returns on timeout\<close>

lemma never_stable_abc: "\<forall>k\<le>40. \<not> stableAt (scripted [''abc'', []]) k"
  by (auto simp: stableAt_def scripted_len)

lemma never_stable_growing: "\<forall>k\<le>40. \<not> stableAt (\<lambda>k. Some (textOfLength (Suc k))) k"
  by (auto simp: stableAt_def lengthAt_def sampleText_def textOfLength_def)

text \<open>
  C5, as stated, fails: the first sample is the non-empty text \<open>abc\<close>, every later one is
  empty, the loop runs out, and the script returns the took-too-long message, not \<open>abc\<close>.
\<close>

theorem C5_counterexample:
  "lengthAt (scripted [''abc'', []]) 0 = 3 \<and>
   \<not> exited (pollLoop (scripted [''abc'', []]) watchInit) \<and>
   awaitResponse (scripted [''abc'', []]) = tookTooLongMessage \<and>
   tookTooLongMessage \<noteq> ''abc''"
  using never_stable_abc
  by (simp add: exited_iff awaitResponse_timeout scripted_len tookTooLongMessage_def)

text \<open>
  C5, amended: when the loop runs out without having been left, the script looks only at the
  length of the last of its 41 samples. If that is non-zero it reads the text area once
  more and returns what it reads then (whatever that is), or the could-not-retrieve
  message when that read raises; otherwise it returns the took-too-long message. So it
  returns the took-too-long message in particular when no sample was ever non-empty.
\<close>

theorem C5_timeout:
  "\<not> exited (pollLoop out watchInit) \<Longrightarrow>
   awaitResponse out =
     (if 0 < lengthAt out 40 then (case out 41 of Some t \<Rightarrow> t | None \<Rightarrow> timedOutMessage)
      else tookTooLongMessage) \<and>
   ((\<forall>k\<le>40. lengthAt out k = 0) \<longrightarrow> awaitResponse out = tookTooLongMessage)"
  using awaitResponse_timeout [of out] by (simp add: exited_iff)

theorem C5_timeout_witness:
  "\<not> exited (pollLoop (\<lambda>k. Some (textOfLength (Suc k))) watchInit) \<and>
   awaitResponse (\<lambda>k. Some (textOfLength (Suc k))) = textOfLength 42 \<and>
   \<not> exited (pollLoop (\<lambda>k. None) watchInit) \<and>
   awaitResponse (\<lambda>k. None) = tookTooLongMessage"
proof -
  have a: "\<not> exited (pollLoop (\<lambda>k. Some (textOfLength (Suc k))) watchInit)"
    using never_stable_growing by (simp add: exited_iff)
  have b: "\<not> exited (pollLoop (\<lambda>k. None) watchInit)"
    by (simp add: exited_iff stableAt_def lengthAt_def sampleText_def)
  show ?thesis
    using C5_timeout [OF a] C5_timeout [OF b] a b
    by (simp add: lengthAt_def sampleText_def textOfLength_def)
qed

section \<open>C6: the prompt as the script reads it\<close>

text \<open>
  C6 says every prompt reaches the clipboard verbatim. The code escapes the double quote
  and the newline and leaves the backslash alone, so the escaping is not one to one: the
  two-character prompt backslash, n and the one-character prompt newline give the same
  script text, and read back the former is a newline. A prompt that ends in a backslash
  takes the template's closing quote into the literal, which then does not close there.
\<close>

theorem C6_backslash_not_escaped:
  "escapePrompt [backslashC, CHR ''n''] = escapePrompt [newlineC] \<and>
   [backslashC, CHR ''n''] \<noteq> [newlineC] \<and>
   literalValue (escapePrompt [backslashC, CHR ''n'']) = Some [newlineC] \<and>
   literalValue (escapePrompt [CHR ''a'', backslashC]) = None"
  by (simp add: escapePrompt_Cons escapePrompt_Nil literalValue_def unescape_def
      quoteC_def backslashC_def newlineC_def)

section \<open>C7: an ask without a prompt\<close>

text \<open>
  C7: an ask whose prompt is missing or the empty string does not pass \<open>isChatGPTArgs\<close>;
  the handler answers with the invalid-arguments error and the state it returns is the
  state it was given: \<^verbatim>\<open>lastRequestTime\<close>, the clipboard and the trace are untouched, so
  no rate-limit sleep and no automation step took place. A prompt is required, and
  required to be non-empty, for ask and only for ask.
\<close>

theorem C7_ask_without_prompt_rejected:
  "getProp ''operation'' args = JStr ''ask'' \<Longrightarrow>
   getProp ''prompt'' args = JUndefined \<or> getProp ''prompt'' args = JStr [] \<Longrightarrow>
   \<not> isChatGPTArgs args \<and>
   handler e ''chatgpt'' args s = (errorResponse ''Invalid arguments for ChatGPT tool'', s) \<and>
   (isChatGPTArgs (JObj [(''operation'', JStr ''ask''), (''prompt'', JStr p)]) \<longleftrightarrow> p \<noteq> []) \<and>
   \<not> isChatGPTArgs (JObj [(''operation'', JStr ''ask'')]) \<and>
   isChatGPTArgs (JObj [(''operation'', JStr ''get_conversations''), (''prompt'', JStr p)]) \<and>
   isChatGPTArgs (JObj [(''operation'', JStr ''get_conversations'')])"
proof -
  assume op: "getProp ''operation'' args = JStr ''ask''"
    and p: "getProp ''prompt'' args = JUndefined \<or> getProp ''prompt'' args = JStr []"
  from p have f: "\<not> truthy (getProp ''prompt'' args)" by auto
  have inv: "\<not> isChatGPTArgs args" by (rule ask_without_prompt_invalid [OF op f])
  from op have t: "truthy args" using getProp_object [of "''operation''" args] by simp
  have h: "handler e ''chatgpt'' args s = (errorResponse ''Invalid arguments for ChatGPT tool'', s)"
    using inv t by (simp add: handler_def)
  have v: "(isChatGPTArgs (JObj [(''operation'', JStr ''ask''), (''prompt'', JStr p)]) \<longleftrightarrow> p \<noteq> []) \<and>
   \<not> isChatGPTArgs (JObj [(''operation'', JStr ''ask'')]) \<and>
   isChatGPTArgs (JObj [(''operation'', JStr ''get_conversations''), (''prompt'', JStr p)]) \<and>
   isChatGPTArgs (JObj [(''operation'', JStr ''get_conversations'')])"
    by (simp add: isChatGPTArgs_def getProp_def isObject_def Let_def)
  from inv h v show ?thesis by blast
qed

theorem C7_ask_without_prompt_rejected_witness:
  "handler calmEnv ''chatgpt'' (JObj [(''operation'', JStr ''ask''), (''prompt'', JStr [])]) userSys =
     (\<lparr>content = ''Error: Invalid arguments for ChatGPT tool'', isError = True\<rparr>, userSys) \<and>
   handler calmEnv ''chatgpt'' (JObj [(''operation'', JStr ''ask'')]) userSys =
     (\<lparr>content = ''Error: Invalid arguments for ChatGPT tool'', isError = True\<rparr>, userSys) \<and>
   isChatGPTArgs (JObj [(''operation'', JStr ''ask''), (''prompt'', JStr ''hi'')])"
  using C7_ask_without_prompt_rejected
          [of "JObj [(''operation'', JStr ''ask''), (''prompt'', JStr [])]" calmEnv userSys "''hi''"]
        C7_ask_without_prompt_rejected
          [of "JObj [(''operation'', JStr ''ask'')]" calmEnv userSys "''hi''"]
  by (simp add: getProp_def errorResponse_def)

section \<open>C8: listing when enumeration fails\<close>

text \<open>
  C8: once the application has been reached, a failure of the enumeration, be it inside the
  script (reading the buttons raises) or of the script call as a whole, makes
  \<open>getConversations\<close> return a list of exactly one item, which says that the conversations
  could not be retrieved; nothing is thrown, and the handler's response is not an error.
\<close>

theorem C8_listing_failure_is_one_item:
  "checkChatGPTAccess e s = (Inr ok, s1) \<Longrightarrow> listError e \<noteq> None \<or> buttons e = None \<Longrightarrow>
   fst (getConversations e s) =
     Inr [if listError e \<noteq> None then ''Error retrieving conversations''
          else ''Unable to retrieve conversations''] \<and>
   fst (handler e ''chatgpt'' (JObj [(''operation'', JStr ''get_conversations'')]) s) =
     \<lparr>content = foundText [if listError e \<noteq> None then ''Error retrieving conversations''
                            else ''Unable to retrieve conversations''],
      isError = False\<rparr>"
proof -
  assume a: "checkChatGPTAccess e s = (Inr ok, s1)" and b: "listError e \<noteq> None \<or> buttons e = None"
  have g: "fst (getConversations e s) =
     Inr [if listError e \<noteq> None then ''Error retrieving conversations''
          else ''Unable to retrieve conversations'']"
    by (rule getConversations_failed [OF a b])
  have v: "isChatGPTArgs (JObj [(''operation'', JStr ''get_conversations'')])"
    by (simp add: isChatGPTArgs_def getProp_def isObject_def Let_def)
  have o: "getProp ''operation'' (JObj [(''operation'', JStr ''get_conversations'')]) =
             JStr ''get_conversations''"
    by (simp add: getProp_def)
  obtain r s' where p: "getConversations e s = (r, s')" by (cases "getConversations e s")
  with g have r: "r = Inr [if listError e \<noteq> None then ''Error retrieving conversations''
          else ''Unable to retrieve conversations'']" by simp
  have "fst (handler e ''chatgpt'' (JObj [(''operation'', JStr ''get_conversations'')]) s) =
     \<lparr>content = foundText [if listError e \<noteq> None then ''Error retrieving conversations''
                            else ''Unable to retrieve conversations''],
      isError = False\<rparr>"
    unfolding handler_def using v by (simp add: o p r)
  with g show ?thesis by simp
qed

theorem C8_listing_failure_is_one_item_witness:
  "checkChatGPTAccess (calmEnv\<lparr>buttons := None\<rparr>) userSys = (Inr True, userSys) \<and>
   fst (getConversations (calmEnv\<lparr>buttons := None\<rparr>) userSys) =
     Inr [''Unable to retrieve conversations''] \<and>
   isError (fst (handler (calmEnv\<lparr>buttons := None\<rparr>) ''chatgpt''
                  (JObj [(''operation'', JStr ''get_conversations'')]) userSys)) = False \<and>
   checkChatGPTAccess (calmEnv\<lparr>listError := Some ''script failed''\<rparr>) userSys = (Inr True, userSys) \<and>
   fst (getConversations (calmEnv\<lparr>listError := Some ''script failed''\<rparr>) userSys) =
     Inr [''Error retrieving conversations'']"
proof -
  have a: "checkChatGPTAccess (calmEnv\<lparr>buttons := None\<rparr>) userSys = (Inr True, userSys)"
    by (simp add: checkChatGPTAccess_def calmEnv_def)
  have b: "checkChatGPTAccess (calmEnv\<lparr>listError := Some ''script failed''\<rparr>) userSys = (Inr True, userSys)"
    by (simp add: checkChatGPTAccess_def calmEnv_def)
  show ?thesis
    using C8_listing_failure_is_one_item [OF a] C8_listing_failure_is_one_item [OF b] a b
    by (simp add: calmEnv_def)
qed

section \<open>C9: the conversation identifier in the script\<close>



section \<open>C10: the list of conversations is never empty\<close>

text \<open>
  C10: splitting any text, the empty one included, at \<^verbatim>\<open>", "\<close> gives at least one piece,
  so every list \<open>getConversations\<close> returns has at least one item, and the handler's answer
  to a \<^verbatim>\<open>get_conversations\<close> call is never the no-conversations text: that branch cannot
  be reached.
\<close>

theorem C10_listing_never_empty:
  "splitJS '', '' result \<noteq> [] \<and>
   (\<forall>conversations s'. getConversations e s = (Inr conversations, s') \<longrightarrow> conversations \<noteq> []) \<and>
   (getProp ''operation'' args = JStr ''get_conversations'' \<longrightarrow>
      content (fst (handler e ''chatgpt'' args s)) \<noteq> noConversations)"
  using splitJS_nonempty [of "'', ''" result] getConversations_nonempty [of e s]
    handler_listing_content [of args e s]
  by simp

theorem C10_listing_never_empty_witness:
  "splitJS '', '' [] = [[]] \<and>
   getConversations (calmEnv\<lparr>buttons := Some []\<rparr>) userSys =
     (Inr [[]], userSys\<lparr>trace := [Activate, Delay 1]\<rparr>) \<and>
   content (fst (handler (calmEnv\<lparr>buttons := Some []\<rparr>) ''chatgpt''
                  (JObj [(''operation'', JStr ''get_conversations'')]) userSys)) \<noteq> noConversations"
proof -
  have g: "getConversations (calmEnv\<lparr>buttons := Some []\<rparr>) userSys =
     (Inr [[]], userSys\<lparr>trace := [Activate, Delay 1]\<rparr>)"
    by (simp add: getConversations_def checkChatGPTAccess_def conversationsList_def
        splitJS_def trim_Nil calmEnv_def userSys_def Let_def)
  show ?thesis
    using C10_listing_never_empty
      [of "[]" "calmEnv\<lparr>buttons := Some []\<rparr>" userSys
          "JObj [(''operation'', JStr ''get_conversations'')]"] g
    by (simp add: splitJS_def getProp_def)
qed

end
